theory Spec2Isabelle
  imports Complex_Main "HOL-Library.Multiset"
begin

section \<open>Data model: pandas DataFrames as the predictor uses them\<close>

text \<open>
  A DataFrame column is a typed array. The constructors are the dtypes the notebook's
  data can carry: \<open>int64\<close>, \<open>float64\<close>, \<open>bool\<close>, \<open>complex128\<close>, \<open>object\<close> (strings),
  \<open>datetime64\<close> (as ticks) and \<open>category\<close> (a categorical view of another column).
  Floating-point numbers are idealised as exact reals: rounding, NaN and infinities are
  not represented.
\<close>

datatype column =
    IntCol "int list"
  | FloatCol "real list"
  | BoolCol "bool list"
  | ComplexCol "complex list"
  | ObjectCol "string list"
  | DatetimeCol "int list"
  | CategoryCol column

text \<open>
  A DataFrame: the row labels (\<open>df.index\<close>) and the named columns in column order
  (\<open>df.columns\<close> with their data).
\<close>

record frame =
  index :: "int list"
  cols :: "(string \<times> column) list"

text \<open>The messages of the \<open>KeyError\<close>s raised by the class itself and by pandas.\<close>

datatype key_msg =
    MissingRequiredColumns "string set"  \<comment> \<open>\<open>f"Missing required columns: {missing}"\<close>\<close>
  | KeyNotFound string                   \<comment> \<open>\<open>df[name]\<close> on an absent column\<close>
  | NotFoundInAxis "string list"         \<comment> \<open>\<open>df.drop(columns=...)\<close>: \<open>"[...] not found in axis"\<close>\<close>
  | NotInIndex "string list"             \<comment> \<open>\<open>df[[...]]\<close>: \<open>"[...] not in index"\<close>\<close>

datatype error =
    KeyError key_msg
  | ValueError string
  | AttributeError string
  | IndexError  \<comment> \<open>raised inside shap on a feature matrix without rows\<close>

fun col_len :: "column \<Rightarrow> nat" where
  "col_len (IntCol xs) = length xs"
| "col_len (FloatCol xs) = length xs"
| "col_len (BoolCol xs) = length xs"
| "col_len (ComplexCol xs) = length xs"
| "col_len (ObjectCol xs) = length xs"
| "col_len (DatetimeCol xs) = length xs"
| "col_len (CategoryCol c) = col_len c"

text \<open>Positional slice \<open>col[k:]\<close>.\<close>

fun col_drop :: "nat \<Rightarrow> column \<Rightarrow> column" where
  "col_drop k (IntCol xs) = IntCol (drop k xs)"
| "col_drop k (FloatCol xs) = FloatCol (drop k xs)"
| "col_drop k (BoolCol xs) = BoolCol (drop k xs)"
| "col_drop k (ComplexCol xs) = ComplexCol (drop k xs)"
| "col_drop k (ObjectCol xs) = ObjectCol (drop k xs)"
| "col_drop k (DatetimeCol xs) = DatetimeCol (drop k xs)"
| "col_drop k (CategoryCol c) = CategoryCol (col_drop k c)"

text \<open>
  \<open>col.to_numpy()\<close> of a column whose dtype \<open>pd.api.types.is_numeric_dtype\<close> accepts
  (integer, float, bool, complex), as the complex array the transform works on;
  \<open>None\<close> for the dtypes it rejects (object, datetime, category).
\<close>

fun numeric_values :: "column \<Rightarrow> complex list option" where
  "numeric_values (IntCol xs) = Some (map of_int xs)"
| "numeric_values (FloatCol xs) = Some (map of_real xs)"
| "numeric_values (BoolCol xs) = Some (map of_bool xs)"
| "numeric_values (ComplexCol xs) = Some xs"
| "numeric_values (ObjectCol xs) = None"
| "numeric_values (DatetimeCol xs) = None"
| "numeric_values (CategoryCol c) = None"

definition is_numeric_dtype :: "column \<Rightarrow> bool" where
  "is_numeric_dtype c = (numeric_values c \<noteq> None)"

definition columns :: "frame \<Rightarrow> string list" where
  "columns df = map fst (cols df)"

definition nrows :: "frame \<Rightarrow> nat" where
  "nrows df = length (index df)"

text \<open>
  \<open>df[name]\<close> for a label that at most one column carries: the column, or \<open>None\<close> where
  pandas raises \<open>KeyError(name)\<close>. For a label carried by several columns pandas returns
  a DataFrame of these columns instead of a column; \<open>is_duplicated\<close> tells that case.
\<close>

definition getitem :: "frame \<Rightarrow> string \<Rightarrow> column option" where
  "getitem df name = map_of (cols df) name"

definition is_duplicated :: "frame \<Rightarrow> string \<Rightarrow> bool" where
  "is_duplicated df name = (1 < count_list (columns df) name)"

text \<open>\<open>df.iloc[k:]\<close>: the rows from position \<open>k\<close> on, labels kept.\<close>

definition iloc_from :: "nat \<Rightarrow> frame \<Rightarrow> frame" where
  "iloc_from k df = \<lparr>index = drop k (index df), cols = map (\<lambda>(n, c). (n, col_drop k c)) (cols df)\<rparr>"

text \<open>
  \<open>df[name] = array\<close>: pandas refuses an array whose length is not the number of rows;
  an existing column is overwritten in place, a new one is appended as the last column.
\<close>

fun put_column :: "string \<Rightarrow> column \<Rightarrow> (string \<times> column) list \<Rightarrow> (string \<times> column) list" where
  "put_column name c [] = [(name, c)]"
| "put_column name c ((n, d) # rest) =
     (if n = name then (n, c) # rest else (n, d) # put_column name c rest)"

definition setitem :: "frame \<Rightarrow> string \<Rightarrow> column \<Rightarrow> error + frame" where
  "setitem df name c =
     (if col_len c \<noteq> nrows df
      then Inl (ValueError ''Length of values does not match length of index'')
      else Inr (df\<lparr>cols := put_column name c (cols df)\<rparr>))"

text \<open>
  \<open>df.drop(columns=names)\<close>: \<open>KeyError\<close> naming the labels that are not columns,
  otherwise the frame without those columns.
\<close>

definition drop_columns :: "frame \<Rightarrow> string list \<Rightarrow> error + frame" where
  "drop_columns df names =
     (let missing = filter (\<lambda>n. n \<notin> set (columns df)) names in
      if missing \<noteq> [] then Inl (KeyError (NotFoundInAxis missing))
      else Inr (df\<lparr>cols := filter (\<lambda>(n, c). n \<notin> set names) (cols df)\<rparr>))"

text \<open>
  \<open>df[[n1, n2, ...]]\<close>: \<open>KeyError\<close> naming the labels that are not columns, otherwise
  the listed columns in the listed order.
\<close>

definition select_columns :: "frame \<Rightarrow> string list \<Rightarrow> error + frame" where
  "select_columns df names =
     (let missing = filter (\<lambda>n. n \<notin> set (columns df)) names in
      if missing \<noteq> [] then Inl (KeyError (NotInIndex missing))
      else Inr (df\<lparr>cols := map (\<lambda>n. (n, the (getitem df n))) names\<rparr>))"
  \<comment> \<open>in the second branch every listed label is a column, so \<open>getitem\<close> finds it\<close>

text \<open>
  A well-formed DataFrame as the predictor receives it: column labels are distinct
  and every column has one entry per row. pandas admits repeated labels; the class meets
  them first in \<open>input['TEMP']\<close>, which \<open>prepare_data\<close> below treats, and the operations
  on labels are otherwise modelled for distinct labels.
\<close>

definition wf_frame :: "frame \<Rightarrow> bool" where
  "wf_frame df = (distinct (columns df) \<and> list_all (\<lambda>(n, c). col_len c = nrows df) (cols df))"

section \<open>The frequency transform\<close>

text \<open>
  \<open>scipy.fft.fft\<close> is a library function; it is modelled by its documented definition,
  \<open>y[k] = sum_j x[j] * exp(-2 pi i j k / n)\<close>, over exact complex numbers. On an empty
  array it raises \<open>ValueError("invalid number of data points (0) specified")\<close>.
\<close>

definition dft_bin :: "complex list \<Rightarrow> nat \<Rightarrow> complex" where
  "dft_bin xs k =
     (\<Sum>j\<leftarrow>[0..<length xs]. xs ! j * cis (- (2 * pi * real j * real k / real (length xs))))"

definition fft :: "complex list \<Rightarrow> error + complex list" where
  "fft xs =
     (if xs = [] then Inl (ValueError ''invalid number of data points (0) specified'')
      else Inr (map (dft_bin xs) [0..<length xs]))"

section \<open>WeatherPredictor.prepare_data\<close>

definition required_columns :: "string set" where
  "required_columns = {''TEMP'', ''HOUR_OF_DAY''}"

definition temp_must_be_numeric :: string where
  "temp_must_be_numeric = '''TEMP' column must be numeric.''"

text \<open>
  The method on DataFrame values. \<open>input.copy()\<close> yields an equal value; the store-level
  version below makes the objects explicit. When the label \<open>TEMP\<close> is duplicated,
  \<open>input['TEMP']\<close> is a DataFrame, which \<open>is_numeric_dtype\<close> rejects.
\<close>

definition prepare_data :: "frame \<Rightarrow> error + frame" where
  "prepare_data input =
     (if \<not> required_columns \<subseteq> set (columns input)
      then Inl (KeyError (MissingRequiredColumns (required_columns - set (columns input))))
      else if is_duplicated input ''TEMP'' then Inl (ValueError temp_must_be_numeric)
      else case getitem input ''TEMP'' of
        None \<Rightarrow> Inl (KeyError (KeyNotFound ''TEMP''))
      | Some temp \<Rightarrow>
         (case numeric_values temp of
            None \<Rightarrow> Inl (ValueError temp_must_be_numeric)
          | Some temp_array \<Rightarrow>
             (case fft temp_array of
                Inl e \<Rightarrow> Inl e
              | Inr fft_values \<Rightarrow>
                  setitem (iloc_from 1 input) ''TEMP_FFT''
                    (FloatCol (map cmod (drop 1 fft_values))))))"

text \<open>
  The same method with the DataFrame objects made explicit. The store is the list of
  live DataFrame objects, an object's address is its position; \<open>alloc\<close> creates a new
  object and never touches an existing one. \<open>input.copy()\<close> and \<open>input.iloc[1:].copy()\<close>
  create new objects, and \<open>input['TEMP_FFT'] = ...\<close> mutates the object the local
  variable \<open>input\<close> refers to at that point. The result is the address of the returned
  DataFrame (or the exception) together with the store after the call.
\<close>

type_synonym store = "frame list"

definition alloc :: "store \<Rightarrow> frame \<Rightarrow> nat \<times> store" where
  "alloc h df = (length h, h @ [df])"

definition prepare_data_store :: "store \<Rightarrow> nat \<Rightarrow> (error + nat) \<times> store" where
  "prepare_data_store h a =
     (if \<not> required_columns \<subseteq> set (columns (h ! a))
      then (Inl (KeyError (MissingRequiredColumns (required_columns - set (columns (h ! a))))), h)
      else if is_duplicated (h ! a) ''TEMP'' then (Inl (ValueError temp_must_be_numeric), h)
      else case getitem (h ! a) ''TEMP'' of
        None \<Rightarrow> (Inl (KeyError (KeyNotFound ''TEMP'')), h)
      | Some temp \<Rightarrow>
         (case numeric_values temp of
            None \<Rightarrow> (Inl (ValueError temp_must_be_numeric), h)
          | Some _ \<Rightarrow>
             (case alloc h (h ! a) of (a1, h1) \<Rightarrow>
               (case Option.bind (getitem (h1 ! a1) ''TEMP'') numeric_values of
                  None \<Rightarrow> (Inl (KeyError (KeyNotFound ''TEMP'')), h1)
                | Some temp_array \<Rightarrow>
                   (case fft temp_array of
                      Inl e \<Rightarrow> (Inl e, h1)
                    | Inr fft_values \<Rightarrow>
                       (case alloc h1 (iloc_from 1 (h1 ! a1)) of (a2, h2) \<Rightarrow>
                         (case alloc h2 (h2 ! a2) of (a3, h3) \<Rightarrow>
                           (case setitem (h3 ! a3) ''TEMP_FFT''
                                   (FloatCol (map cmod (drop 1 fft_values))) of
                              Inl e \<Rightarrow> (Inl e, h3)
                            | Inr df \<Rightarrow> (Inr a3, h3[a3 := df])))))))))"

section \<open>The external libraries\<close>

text \<open>
  xgboost, shap and the sorting routine behind \<open>DataFrame.sort_values\<close> are not part of
  the repository; they are parameters of the model.
  \<^item> \<open>xgb_fit X y\<close>: \<open>XGBRegressor(objective='reg:squarederror', n_estimators=100,
    enable_categorical=True).fit(X, y)\<close>, the fitted model or the exception it raises;
  \<^item> \<open>xgb_predict model X i\<close>: entry \<open>i\<close> of \<open>model.predict(X)\<close>, which has one entry per
    row of \<open>X\<close>;
  \<^item> \<open>shap_values model X i j\<close>: entry \<open>(i, j)\<close> of \<open>shap.Explainer(model)(X).values\<close>
    for an \<open>X\<close> with at least one row; the array has one row per row of \<open>X\<close> and one column
    per column of \<open>X\<close>. On an \<open>X\<close> without rows the call raises \<open>IndexError\<close>, which
    \<open>calculate_global_shap\<close> below passes on;
  \<^item> \<open>sort_order scores\<close>: the row positions in the order in which
    \<open>sort_values(by=..., ascending=False)\<close>, with its default \<open>kind='quicksort'\<close>,
    arranges rows holding these scores.
\<close>

record 'm library =
  xgb_fit :: "frame \<Rightarrow> column \<Rightarrow> error + 'm"
  xgb_predict :: "'m \<Rightarrow> frame \<Rightarrow> nat \<Rightarrow> real"
  shap_values :: "'m \<Rightarrow> frame \<Rightarrow> nat \<Rightarrow> nat \<Rightarrow> real"
  sort_order :: "real list \<Rightarrow> nat list"

text \<open>
  What pandas documents of a descending sort: the result is a rearrangement of the rows
  with the scores non-increasing. The default \<open>quicksort\<close> is documented as not stable,
  so nothing is promised about the order of rows with equal scores.
\<close>

definition sorts_descending :: "(real list \<Rightarrow> nat list) \<Rightarrow> bool" where
  "sorts_descending srt =
     (\<forall>xs. mset (srt xs) = mset [0..<length xs] \<and> sorted_wrt (\<lambda>i j. xs ! j \<le> xs ! i) (srt xs))"

section \<open>WeatherPredictor.predict\<close>

text \<open>
  The instance attributes. The class has no \<open>__init__\<close>: a new instance has neither
  attribute, and \<open>hasattr(self, 'xgb_model')\<close> is \<open>self_xgb_model self \<noteq> None\<close>.
\<close>

record 'm predictor =
  self_xgb_model :: "'m option"
  self_X :: "frame option"

definition WeatherPredictor :: "'m predictor" where
  "WeatherPredictor = \<lparr>self_xgb_model = None, self_X = None\<rparr>"

text \<open>\<open>col.astype('category')\<close>.\<close>

fun astype_category :: "column \<Rightarrow> column" where
  "astype_category (CategoryCol c) = CategoryCol c"
| "astype_category c = CategoryCol c"

text \<open>
  The statement \<open>if 'LOCATION' in X.columns: X['LOCATION'] = X['LOCATION'].astype('category')\<close>.
\<close>

definition location_as_category :: "frame \<Rightarrow> error + frame" where
  "location_as_category X =
     (if ''LOCATION'' \<in> set (columns X)
      then (case getitem X ''LOCATION'' of
              None \<Rightarrow> Inl (KeyError (KeyNotFound ''LOCATION''))
            | Some loc \<Rightarrow> setitem X ''LOCATION'' (astype_category loc))
      else Inr X)"

definition output_columns :: "string list" where
  "output_columns = [''DATE'', ''LOCATION'', ''HOUR_OF_DAY'', ''TEMP'', ''PREDICTED_TEMP'']"

text \<open>
  \<open>predict\<close> returns the result (or the exception) and the instance after the call.
  The two attributes are assigned after fitting and predicting and before the output
  columns are selected.
\<close>

definition predict :: "'m library \<Rightarrow> 'm predictor \<Rightarrow> frame \<Rightarrow> (error + frame) \<times> 'm predictor" where
  "predict lib self input =
     (case prepare_data input of
        Inl e \<Rightarrow> (Inl e, self)
      | Inr prepared_data \<Rightarrow>
         (case drop_columns prepared_data [''TEMP'', ''DATE''] of
            Inl e \<Rightarrow> (Inl e, self)
          | Inr X0 \<Rightarrow>
             (case getitem prepared_data ''TEMP'' of
                None \<Rightarrow> (Inl (KeyError (KeyNotFound ''TEMP'')), self)
              | Some y \<Rightarrow>
                 (case location_as_category X0 of
                    Inl e \<Rightarrow> (Inl e, self)
                  | Inr X \<Rightarrow>
                     (case xgb_fit lib X y of
                        Inl e \<Rightarrow> (Inl e, self)
                      | Inr xgb_model \<Rightarrow>
                         (case setitem prepared_data ''PREDICTED_TEMP''
                                 (FloatCol (map (xgb_predict lib xgb_model X) [0..<nrows X])) of
                            Inl e \<Rightarrow> (Inl e, self)
                          | Inr with_predictions \<Rightarrow>
                              (select_columns with_predictions output_columns,
                               self\<lparr>self_xgb_model := Some xgb_model, self_X := Some X\<rparr>)))))))"

text \<open>
  A caller that invokes \<open>predict\<close> on several inputs in turn, catching the exceptions:
  the instance after the calls, and whether one of the calls returned a result.
\<close>

fun predict_all :: "'m library \<Rightarrow> 'm predictor \<Rightarrow> frame list \<Rightarrow> 'm predictor" where
  "predict_all lib self [] = self"
| "predict_all lib self (input # rest) = predict_all lib (snd (predict lib self input)) rest"

fun some_predict_succeeded :: "'m library \<Rightarrow> 'm predictor \<Rightarrow> frame list \<Rightarrow> bool" where
  "some_predict_succeeded lib self [] = False"
| "some_predict_succeeded lib self (input # rest) =
     (\<not> isl (fst (predict lib self input))
      \<or> some_predict_succeeded lib (snd (predict lib self input)) rest)"

section \<open>WeatherPredictor.calculate_global_shap\<close>

definition model_not_trained :: string where
  "model_not_trained = ''Model not trained. Run 'predict' first.''"

text \<open>\<open>a.mean()\<close> of a one-dimensional array; it is only taken of arrays that are not empty.\<close>

definition mean :: "real list \<Rightarrow> real" where
  "mean xs = sum_list xs / real (length xs)"

text \<open>\<open>np.abs(shap_values.values).mean(axis=0)\<close>: one score per column of \<open>X\<close>.\<close>

definition global_shap :: "'m library \<Rightarrow> 'm \<Rightarrow> frame \<Rightarrow> real list" where
  "global_shap lib model X =
     map (\<lambda>j. mean (map (\<lambda>i. \<bar>shap_values lib model X i j\<bar>) [0..<nrows X]))
       [0..<length (columns X)]"

text \<open>
  Positional selection of rows, \<open>col[order]\<close> and \<open>df.iloc[order]\<close>. The positions are
  those a sorting routine returns, a rearrangement of \<open>0, ..., n - 1\<close>, hence in range.
\<close>

fun col_take :: "nat list \<Rightarrow> column \<Rightarrow> column" where
  "col_take order (IntCol xs) = IntCol (map ((!) xs) order)"
| "col_take order (FloatCol xs) = FloatCol (map ((!) xs) order)"
| "col_take order (BoolCol xs) = BoolCol (map ((!) xs) order)"
| "col_take order (ComplexCol xs) = ComplexCol (map ((!) xs) order)"
| "col_take order (ObjectCol xs) = ObjectCol (map ((!) xs) order)"
| "col_take order (DatetimeCol xs) = DatetimeCol (map ((!) xs) order)"
| "col_take order (CategoryCol c) = CategoryCol (col_take order c)"

definition iloc_take :: "nat list \<Rightarrow> frame \<Rightarrow> frame" where
  "iloc_take order df =
     \<lparr>index = map ((!) (index df)) order, cols = map (\<lambda>(n, c). (n, col_take order c)) (cols df)\<rparr>"

text \<open>
  \<open>pd.DataFrame({'FEATURE': X.columns, 'GLOBAL_SHAP': global_shap})\<close>, with the default
  row labels \<open>0, 1, ...\<close>: row \<open>j\<close> belongs to column \<open>j\<close> of \<open>X\<close>.
\<close>

definition feature_importance :: "string list \<Rightarrow> real list \<Rightarrow> frame" where
  "feature_importance features scores =
     \<lparr>index = map int [0..<length features],
      cols = [(''FEATURE'', ObjectCol features), (''GLOBAL_SHAP'', FloatCol scores)]\<rparr>"

definition calculate_global_shap :: "'m library \<Rightarrow> 'm predictor \<Rightarrow> error + frame" where
  "calculate_global_shap lib self =
     (case self_xgb_model self of
        None \<Rightarrow> Inl (ValueError model_not_trained)
      | Some model \<Rightarrow>
         (case self_X self of
            None \<Rightarrow> Inl (AttributeError ''X'')
          | Some X \<Rightarrow>
              if nrows X = 0 then Inl IndexError
              else Inr (iloc_take (sort_order lib (global_shap lib model X))
                          (feature_importance (columns X) (global_shap lib model X)))))"

section \<open>The sorting routine on x86-64 with AVX-512\<close>

text \<open>
  What \<open>sort_values(by=..., ascending=False)\<close> runs for a float column of up to 8 rows
  without NaN on an x86-64 CPU with AVX-512 and numpy 1.25 or later.
  pandas (\<open>nargsort\<close>) reverses the values, calls \<open>argsort(kind='quicksort')\<close> and reverses
  the positions it gets. numpy sorts an array of up to 8 doubles in one vector register:
  the positions \<open>0, 1, ...\<close> and the values they point to are loaded into 8 lanes, unused
  lanes padded with the largest value (\<open>None\<close> here), and a bitonic network of six
  compare-and-exchange steps sorts the lanes. In a step every lane is compared with a
  partner lane and keeps the smaller or the larger of the two values; it keeps its own
  position when the value kept equals its own value and takes the partner's otherwise.
  Longer arrays take several registers and are not modelled: the definitions below are
  for up to 8 values.
\<close>

type_synonym lane = "real option \<times> nat"

fun key_min :: "real option \<Rightarrow> real option \<Rightarrow> real option" where
  "key_min None b = b"
| "key_min (Some a) None = Some a"
| "key_min (Some a) (Some b) = Some (min a b)"

fun key_max :: "real option \<Rightarrow> real option \<Rightarrow> real option" where
  "key_max None b = None"
| "key_max (Some a) None = None"
| "key_max (Some a) (Some b) = Some (max a b)"

definition cmp_merge :: "bool \<Rightarrow> lane \<Rightarrow> lane \<Rightarrow> lane" where
  "cmp_merge take_max in1 in2 =
     (let tmp_key = (if take_max then key_max (fst in2) (fst in1) else key_min (fst in2) (fst in1))
      in (tmp_key, if tmp_key = fst in1 then snd in1 else snd in2))"

text \<open>One step: lane \<open>i\<close> is merged with lane \<open>partner ! i\<close> and keeps the larger value where
  \<open>take_max ! i\<close> holds.\<close>

definition stage :: "nat list \<Rightarrow> bool list \<Rightarrow> lane list \<Rightarrow> lane list" where
  "stage partner take_max zmm =
     map (\<lambda>(p, t, own). cmp_merge t own (zmm ! p)) (zip partner (zip take_max zmm))"

text \<open>The partner lanes and the lanes that keep the larger value, lane 0 first.\<close>

definition swap_pairs :: "nat list" where
  "swap_pairs = [1, 0, 3, 2, 5, 4, 7, 6]"

definition network_64bit_1 :: "nat list" where
  "network_64bit_1 = [3, 2, 1, 0, 7, 6, 5, 4]"

definition network_64bit_2 :: "nat list" where
  "network_64bit_2 = [7, 6, 5, 4, 3, 2, 1, 0]"

definition network_64bit_3 :: "nat list" where
  "network_64bit_3 = [2, 3, 0, 1, 6, 7, 4, 5]"

definition mask_AA :: "bool list" where
  "mask_AA = [False, True, False, True, False, True, False, True]"

definition mask_CC :: "bool list" where
  "mask_CC = [False, False, True, True, False, False, True, True]"

definition mask_F0 :: "bool list" where
  "mask_F0 = [False, False, False, False, True, True, True, True]"

definition sort_zmm_64bit :: "lane list \<Rightarrow> lane list" where
  "sort_zmm_64bit zmm =
     stage swap_pairs mask_AA (stage network_64bit_3 mask_CC (stage network_64bit_2 mask_F0
       (stage swap_pairs mask_AA (stage network_64bit_1 mask_CC (stage swap_pairs mask_AA zmm)))))"

definition argsort_8_64bit :: "real list \<Rightarrow> nat list" where
  "argsort_8_64bit arr =
     map snd (take (length arr)
       (sort_zmm_64bit (take 8 (zip (map Some arr) [0..<length arr] @ replicate 8 (None, 0)))))"

definition nargsort_descending :: "real list \<Rightarrow> nat list" where
  "nargsort_descending items =
     rev (map ((!) (rev [0..<length items])) (argsort_8_64bit (rev items)))"

section \<open>Sample data and sample libraries\<close>

text \<open>
  Concrete inputs on which the theorems below are instantiated: three hourly
  observations of one location, the same without the \<open>LOCATION\<close> column, the latter with
  a column of free-text notes, and one observation.
\<close>

definition sample_observations :: frame where
  "sample_observations =
     \<lparr>index = [0, 1, 2],
      cols = [(''DATE'', DatetimeCol [0, 3600, 7200]),
              (''TEMP'', FloatCol [15, 18, 21]),
              (''LOCATION'', ObjectCol [''Tokyo'', ''Tokyo'', ''Tokyo'']),
              (''HOUR_OF_DAY'', IntCol [0, 1, 2]),
              (''RANDOM_NOISE'', FloatCol [40, 7, 93])]\<rparr>"

definition sample_without_location :: frame where
  "sample_without_location =
     \<lparr>index = [0, 1, 2],
      cols = [(''DATE'', DatetimeCol [0, 3600, 7200]),
              (''TEMP'', FloatCol [15, 18, 21]),
              (''HOUR_OF_DAY'', IntCol [0, 1, 2])]\<rparr>"

definition sample_with_notes :: frame where
  "sample_with_notes =
     \<lparr>index = [0, 1, 2],
      cols = [(''DATE'', DatetimeCol [0, 3600, 7200]),
              (''TEMP'', FloatCol [15, 18, 21]),
              (''HOUR_OF_DAY'', IntCol [0, 1, 2]),
              (''NOTES'', ObjectCol [''clear'', ''rain'', ''fog''])]\<rparr>"

definition single_observation :: frame where
  "single_observation =
     \<lparr>index = [0], cols = [(''TEMP'', FloatCol [20]), (''HOUR_OF_DAY'', IntCol [0])]\<rparr>"

text \<open>
  A sorting routine that arranges scores in non-increasing order and keeps rows with
  equal scores in their original order.
\<close>

definition stable_order :: "real list \<Rightarrow> nat list" where
  "stable_order xs = sort_key (\<lambda>i. - xs ! i) [0..<length xs]"

text \<open>
  The dtypes that xgboost accepts in a feature matrix when \<open>enable_categorical=True\<close>;
  for any other column \<open>fit\<close> raises \<open>ValueError("DataFrame.dtypes for data must be int,
  float, bool or category. ...")\<close>.
\<close>

fun xgb_accepts :: "column \<Rightarrow> bool" where
  "xgb_accepts (IntCol xs) = True"
| "xgb_accepts (FloatCol xs) = True"
| "xgb_accepts (BoolCol xs) = True"
| "xgb_accepts (CategoryCol c) = True"
| "xgb_accepts (ComplexCol xs) = False"
| "xgb_accepts (ObjectCol xs) = False"
| "xgb_accepts (DatetimeCol xs) = False"

definition xgb_invalid_dtypes :: string where
  "xgb_invalid_dtypes = ''DataFrame.dtypes for data must be int, float, bool or category.''"

text \<open>
  A library instance: fitting checks the dtypes of the feature matrix as xgboost does and
  yields the trivial model, every prediction is \<open>0\<close>, and the attribution of column \<open>j\<close>
  in row \<open>i\<close> is \<open>w j\<close> with alternating sign.
\<close>

definition sample_library :: "(nat \<Rightarrow> real) \<Rightarrow> (real list \<Rightarrow> nat list) \<Rightarrow> unit library" where
  "sample_library w srt =
     \<lparr>xgb_fit = (\<lambda>X y. if list_all (\<lambda>(n, c). xgb_accepts c) (cols X) then Inr ()
                         else Inl (ValueError xgb_invalid_dtypes)),
      xgb_predict = (\<lambda>model X i. 0),
      shap_values = (\<lambda>model X i j. if even i then w j else - w j),
      sort_order = srt\<rparr>"

text \<open>A trained instance holding a feature matrix of two rows and two columns.\<close>

definition sample_trained :: "unit predictor" where
  "sample_trained =
     \<lparr>self_xgb_model = Some (),
      self_X = Some \<lparr>index = [1, 2],
                     cols = [(''HOUR_OF_DAY'', IntCol [1, 2]), (''TEMP_FFT'', FloatCol [5, 5])]\<rparr>\<rparr>"

text \<open>
  A trained instance holding the feature matrix that \<open>predict\<close> builds from
  \<open>sample_observations\<close>: two rows and four columns.
\<close>

definition sample_trained_four :: "unit predictor" where
  "sample_trained_four =
     \<lparr>self_xgb_model = Some (),
      self_X = Some \<lparr>index = [1, 2],
                     cols = [(''LOCATION'', CategoryCol (ObjectCol [''Tokyo'', ''Tokyo''])),
                             (''HOUR_OF_DAY'', IntCol [1, 2]),
                             (''RANDOM_NOISE'', FloatCol [7, 93]),
                             (''TEMP_FFT'', FloatCol [5, 5])]\<rparr>\<rparr>"

section \<open>Facts about the DataFrame operations\<close>

lemma col_len_col_drop: "col_len (col_drop k c) = col_len c - k"
  by (induction c) simp_all

lemma columns_iloc_from: "columns (iloc_from k df) = columns df"
  by (simp add: columns_def iloc_from_def case_prod_unfold comp_def)

lemma index_iloc_from: "index (iloc_from k df) = drop k (index df)"
  by (simp add: iloc_from_def)

lemma nrows_iloc_from: "nrows (iloc_from k df) = nrows df - k"
  by (simp add: nrows_def iloc_from_def)

lemma map_of_map_snd: "map_of (map (\<lambda>(n, c). (n, f c)) xs) name = map_option f (map_of xs name)"
  by (induction xs) auto

lemma getitem_iloc_from: "getitem (iloc_from k df) name = map_option (col_drop k) (getitem df name)"
  by (simp add: getitem_def iloc_from_def map_of_map_snd)

lemma map_of_put_column:
  "map_of (put_column name c xs) n = (if n = name then Some c else map_of xs n)"
  by (induction xs) auto

lemma names_put_column:
  "map fst (put_column name c xs) = (if name \<in> set (map fst xs) then map fst xs else map fst xs @ [name])"
  by (induction name c xs rule: put_column.induct) (force split: if_splits)+

lemma set_put_column: "set (put_column name c xs) \<subseteq> insert (name, c) (set xs)"
  by (induction name c xs rule: put_column.induct) (auto split: if_splits)

lemma wf_iloc_from: "wf_frame df \<Longrightarrow> wf_frame (iloc_from k df)"
  using columns_iloc_from[of k df] nrows_iloc_from[of k df]
  by (auto simp: wf_frame_def list_all_iff col_len_col_drop iloc_from_def)

lemma setitem_Inr:
  "col_len c = nrows df \<Longrightarrow> setitem df name c = Inr (df\<lparr>cols := put_column name c (cols df)\<rparr>)"
  by (simp add: setitem_def)

lemma wf_put_column:
  assumes "wf_frame df" "col_len c = nrows df"
  shows "wf_frame (df\<lparr>cols := put_column name c (cols df)\<rparr>)"
proof -
  have d: "distinct (map fst (put_column name c (cols df)))"
    using assms(1) by (auto simp: names_put_column wf_frame_def columns_def)
  have "\<forall>(n, d) \<in> set (put_column name c (cols df)). col_len d = nrows df"
    using set_put_column[of name c "cols df"] assms
    by (auto simp: wf_frame_def list_all_iff)
  then show ?thesis using d by (simp add: wf_frame_def columns_def nrows_def list_all_iff)
qed

lemma length_numeric_values: "numeric_values c = Some a \<Longrightarrow> length a = col_len c"
  by (cases c) auto

lemma fft_nonempty: "xs \<noteq> [] \<Longrightarrow> fft xs = Inr (map (dft_bin xs) [0..<length xs])"
  by (simp add: fft_def)

text \<open>Bin \<open>0\<close> of the transform is the zero-frequency term, the sum of the sequence.\<close>

lemma dft_bin_zero: "dft_bin xs 0 = sum_list xs"
proof -
  have "dft_bin xs 0 = sum_list (map ((!) xs) [0..<length xs])"
    by (simp add: dft_bin_def)
  then show ?thesis by (simp add: map_nth)
qed

lemma getitem_in_columns: "getitem df name = Some c \<Longrightarrow> name \<in> set (columns df)"
  by (auto simp: getitem_def columns_def dest: map_of_SomeD intro: rev_image_eqI)

lemma getitem_col_len: "wf_frame df \<Longrightarrow> getitem df name = Some c \<Longrightarrow> col_len c = nrows df"
  by (auto simp: wf_frame_def getitem_def list_all_iff dest!: map_of_SomeD)

lemma count_list_distinct: "distinct xs \<Longrightarrow> count_list xs x \<le> 1"
  by (induction xs) (auto simp: count_notin)

lemma wf_not_duplicated: "wf_frame df \<Longrightarrow> \<not> is_duplicated df name"
  using count_list_distinct[of "columns df" name] by (simp add: wf_frame_def is_duplicated_def)

lemma prepare_data_numeric:
  assumes "required_columns \<subseteq> set (columns df)" "getitem df ''TEMP'' = Some temp"
    "numeric_values temp = Some temp_array" "temp_array \<noteq> []"
    "\<not> is_duplicated df ''TEMP''"
  shows "prepare_data df =
           setitem (iloc_from 1 df) ''TEMP_FFT''
             (FloatCol (map (\<lambda>k. cmod (dft_bin temp_array k)) [1..<length temp_array]))"
  using assms by (simp add: prepare_data_def fft_nonempty drop_map comp_def)

lemma in_columns_iff: "n \<in> set (columns df) \<longleftrightarrow> (\<exists>c. getitem df n = Some c)"
  by (metis columns_def getitem_def map_of_eq_None_iff not_Some_eq set_map)

lemma setitem_InrD:
  assumes "setitem df name c = Inr df'"
  shows "index df' = index df"
    and "columns df' = (if name \<in> set (columns df) then columns df else columns df @ [name])"
    and "getitem df' n = (if n = name then Some c else getitem df n)"
    and "col_len c = nrows df"
proof -
  have len: "col_len c = nrows df"
    using assms by (simp add: setitem_def split: if_splits)
  have eq: "df' = df\<lparr>cols := put_column name c (cols df)\<rparr>"
    using assms by (simp add: setitem_def split: if_splits)
  show "index df' = index df" by (simp add: eq)
  show "columns df' = (if name \<in> set (columns df) then columns df else columns df @ [name])"
    unfolding eq columns_def using names_put_column[of name c "cols df"] by simp
  show "getitem df' n = (if n = name then Some c else getitem df n)"
    by (simp add: eq getitem_def map_of_put_column)
  show "col_len c = nrows df" by (rule len)
qed

lemma map_of_filter_fst:
  "map_of (filter (\<lambda>(n, c). P n) xs) n = (if P n then map_of xs n else None)"
  by (induction xs) auto

lemma map_fst_filter_fst:
  "map fst (filter (\<lambda>(n, c). P n) xs) = filter P (map fst xs)"
  by (induction xs) auto

lemma drop_columns_InrD:
  assumes "drop_columns df names = Inr df'"
  shows "set names \<subseteq> set (columns df)"
    and "index df' = index df"
    and "columns df' = filter (\<lambda>n. n \<notin> set names) (columns df)"
    and "getitem df' n = (if n \<in> set names then None else getitem df n)"
  using assms
  by (auto simp: drop_columns_def Let_def columns_def getitem_def map_of_filter_fst
      map_fst_filter_fst filter_empty_conv split: if_splits)

lemma map_of_map_key:
  "map_of (map (\<lambda>n. (n, f n)) names) n = (if n \<in> set names then Some (f n) else None)"
  by (induction names) auto

lemma select_columns_InrD:
  assumes "select_columns df names = Inr df'"
  shows "set names \<subseteq> set (columns df)"
    and "index df' = index df"
    and "columns df' = names"
    and "n \<in> set names \<Longrightarrow> getitem df' n = getitem df n"
proof -
  have sub: "set names \<subseteq> set (columns df)"
    using assms by (auto simp: select_columns_def Let_def filter_empty_conv split: if_splits)
  have eq: "df' = df\<lparr>cols := map (\<lambda>n. (n, the (getitem df n))) names\<rparr>"
    using assms by (auto simp: select_columns_def Let_def split: if_splits)
  show "set names \<subseteq> set (columns df)" by (rule sub)
  show "index df' = index df" by (simp add: eq)
  show "columns df' = names" by (simp add: eq columns_def comp_def)
  show "getitem df' n = getitem df n" if nn: "n \<in> set names"
  proof -
    obtain c where "getitem df n = Some c" using sub nn in_columns_iff by blast
    then show ?thesis using nn by (simp add: eq getitem_def map_of_map_key)
  qed
qed

lemma prepare_data_InrD:
  assumes "prepare_data input = Inr prepared"
  shows "required_columns \<subseteq> set (columns input)"
    and "index prepared = drop 1 (index input)"
    and "columns prepared =
           (if ''TEMP_FFT'' \<in> set (columns input) then columns input else columns input @ [''TEMP_FFT''])"
proof -
  show req: "required_columns \<subseteq> set (columns input)"
    using assms by (auto simp: prepare_data_def split: if_splits)
  obtain c where s: "setitem (iloc_from 1 input) ''TEMP_FFT'' c = Inr prepared"
    using assms req by (auto simp: prepare_data_def split: option.splits sum.splits if_splits)
  show "index prepared = drop 1 (index input)"
    using setitem_InrD(1)[OF s] by (simp add: index_iloc_from)
  show "columns prepared =
           (if ''TEMP_FFT'' \<in> set (columns input) then columns input else columns input @ [''TEMP_FFT''])"
    using setitem_InrD(2)[OF s] by (simp add: columns_iloc_from)
qed

lemma astype_category_is_category: "\<exists>c. astype_category loc = CategoryCol c"
  by (cases loc) simp_all

lemma location_as_category_InrD:
  assumes "location_as_category X0 = Inr X"
  shows "index X = index X0" and "columns X = columns X0"
    and "getitem X n = (if n = ''LOCATION'' then map_option astype_category (getitem X0 n) else getitem X0 n)"
proof -
  show "index X = index X0"
    using assms setitem_InrD(1)
    by (fastforce simp: location_as_category_def split: if_splits option.splits)
  show "columns X = columns X0"
    using assms setitem_InrD(2)
    by (fastforce simp: location_as_category_def split: if_splits option.splits)
  show "getitem X n = (if n = ''LOCATION'' then map_option astype_category (getitem X0 n) else getitem X0 n)"
  proof (cases "''LOCATION'' \<in> set (columns X0)")
    case True
    then obtain loc where l: "getitem X0 ''LOCATION'' = Some loc" using in_columns_iff by blast
    then have "setitem X0 ''LOCATION'' (astype_category loc) = Inr X"
      using assms True by (simp add: location_as_category_def)
    then show ?thesis using setitem_InrD(3) l by simp
  next
    case False
    then have "X = X0" using assms by (simp add: location_as_category_def)
    moreover have "getitem X0 ''LOCATION'' = None" using False in_columns_iff by fastforce
    ultimately show ?thesis by simp
  qed
qed

lemma prepare_data_sample_observations:
  "prepare_data sample_observations =
     Inr \<lparr>index = [1, 2],
          cols = [(''DATE'', DatetimeCol [3600, 7200]),
                  (''TEMP'', FloatCol [18, 21]),
                  (''LOCATION'', ObjectCol [''Tokyo'', ''Tokyo'']),
                  (''HOUR_OF_DAY'', IntCol [1, 2]),
                  (''RANDOM_NOISE'', FloatCol [7, 93]),
                  (''TEMP_FFT'', FloatCol [cmod (dft_bin [15, 18, 21] 1), cmod (dft_bin [15, 18, 21] 2)])]\<rparr>"
  by (simp add: prepare_data_def sample_observations_def required_columns_def columns_def
      getitem_def fft_def setitem_def iloc_from_def nrows_def upt_conv_Cons
      numeral_2_eq_2[symmetric] is_duplicated_def)

lemma prepare_data_sample_without_location:
  "prepare_data sample_without_location =
     Inr \<lparr>index = [1, 2],
          cols = [(''DATE'', DatetimeCol [3600, 7200]),
                  (''TEMP'', FloatCol [18, 21]),
                  (''HOUR_OF_DAY'', IntCol [1, 2]),
                  (''TEMP_FFT'', FloatCol [cmod (dft_bin [15, 18, 21] 1), cmod (dft_bin [15, 18, 21] 2)])]\<rparr>"
  by (simp add: prepare_data_def sample_without_location_def required_columns_def columns_def
      getitem_def fft_def setitem_def iloc_from_def nrows_def upt_conv_Cons
      numeral_2_eq_2[symmetric] is_duplicated_def)

section \<open>prepare\_data: rows and magnitudes\<close>

text \<open>
  C1. For a well-formed input with \<open>n \<ge> 2\<close> rows, a numeric \<open>TEMP\<close> column and an
  \<open>HOUR_OF_DAY\<close> column, \<open>prepare_data\<close> returns a frame with \<open>n - 1\<close> rows, namely the
  input rows without the first one (row labels and every other column are the input's
  from position 1 on). The transform of the whole \<open>TEMP\<close> sequence has the bins
  \<open>0, ..., n - 1\<close>, bin \<open>0\<close> being the zero-frequency term (the sum of the sequence), and
  the attached \<open>TEMP_FFT\<close> column holds the magnitudes of the bins \<open>1, ..., n - 1\<close> in this
  order.
\<close>

theorem prepare_data_rows_and_magnitudes:
  assumes "wf_frame df" "nrows df = n" "2 \<le> n"
    and "getitem df ''TEMP'' = Some temp" "numeric_values temp = Some temp_array"
    and "''HOUR_OF_DAY'' \<in> set (columns df)"
  shows "\<exists>out. prepare_data df = Inr out \<and> nrows out = n - 1 \<and> index out = tl (index df)
           \<and> fft temp_array = Inr (map (dft_bin temp_array) [0..<n])
           \<and> dft_bin temp_array 0 = sum_list temp_array
           \<and> getitem out ''TEMP_FFT'' =
               Some (FloatCol (map (\<lambda>k. cmod (dft_bin temp_array k)) [1..<n]))
           \<and> (\<forall>name. name \<noteq> ''TEMP_FFT'' \<longrightarrow>
                 getitem out name = map_option (col_drop 1) (getitem df name))
           \<and> wf_frame out"
proof -
  let ?mag = "FloatCol (map (\<lambda>k. cmod (dft_bin temp_array k)) [1..<n])"
  let ?out = "(iloc_from 1 df)\<lparr>cols := put_column ''TEMP_FFT'' ?mag (cols (iloc_from 1 df))\<rparr>"
  have len: "length temp_array = n"
    using assms by (simp add: length_numeric_values getitem_col_len)
  have req: "required_columns \<subseteq> set (columns df)"
    using assms(4,6) by (simp add: required_columns_def getitem_in_columns)
  have ne: "temp_array \<noteq> []" using len assms(3) by auto
  have maglen: "col_len ?mag = nrows (iloc_from 1 df)"
    using assms(2) by (simp add: nrows_iloc_from)
  have "prepare_data df = setitem (iloc_from 1 df) ''TEMP_FFT'' ?mag"
    using prepare_data_numeric[OF req assms(4,5) ne wf_not_duplicated[OF assms(1)]] len by simp
  then have 1: "prepare_data df = Inr ?out"
    using setitem_Inr[OF maglen] by simp
  have 2: "nrows ?out = n - 1" using assms(2) by (simp add: nrows_def iloc_from_def)
  have 3: "index ?out = tl (index df)" by (simp add: iloc_from_def drop_Suc)
  have 4: "getitem ?out ''TEMP_FFT'' = Some ?mag" by (simp add: getitem_def map_of_put_column)
  have 5: "\<forall>name. name \<noteq> ''TEMP_FFT'' \<longrightarrow> getitem ?out name = map_option (col_drop 1) (getitem df name)"
    using getitem_iloc_from[of 1 df] by (simp add: getitem_def map_of_put_column)
  have 6: "wf_frame ?out"
    using wf_put_column[OF wf_iloc_from[OF assms(1)] maglen] .
  have 7: "fft temp_array = Inr (map (dft_bin temp_array) [0..<n])"
    using fft_nonempty[OF ne] len by simp
  have 8: "dft_bin temp_array 0 = sum_list temp_array"
    by (rule dft_bin_zero)
  show ?thesis using 1 2 3 4 5 6 7 8 by blast
qed

theorem prepare_data_rows_and_magnitudes_witness:
  "wf_frame sample_observations \<and> nrows sample_observations = 3 \<and> (2::nat) \<le> 3
   \<and> getitem sample_observations ''TEMP'' = Some (FloatCol [15, 18, 21])
   \<and> numeric_values (FloatCol [15, 18, 21]) = Some [15, 18, 21]
   \<and> ''HOUR_OF_DAY'' \<in> set (columns sample_observations)
   \<and> (\<exists>out. prepare_data sample_observations = Inr out \<and> nrows out = 2 \<and> index out = [1, 2]
          \<and> getitem out ''TEMP_FFT'' =
                Some (FloatCol [cmod (dft_bin [15, 18, 21] 1), cmod (dft_bin [15, 18, 21] 2)])
          \<and> getitem out ''HOUR_OF_DAY'' = Some (IntCol [1, 2]))"
proof -
  have h: "wf_frame sample_observations" "nrows sample_observations = 3" "(2::nat) \<le> 3"
    "getitem sample_observations ''TEMP'' = Some (FloatCol [15, 18, 21])"
    "numeric_values (FloatCol [15, 18, 21]) = Some [15, 18, 21]"
    "''HOUR_OF_DAY'' \<in> set (columns sample_observations)"
    by (simp_all add: sample_observations_def wf_frame_def columns_def nrows_def getitem_def)
  have u: "[1..<3] = [1, 2]" by (simp add: upt_conv_Cons)
  have g: "getitem sample_observations ''HOUR_OF_DAY'' = Some (IntCol [0, 1, 2])"
    "index sample_observations = [0, 1, 2]"
    by (simp_all add: sample_observations_def getitem_def)
  show ?thesis
    using h prepare_data_rows_and_magnitudes [OF h] u g by auto
qed

section \<open>prepare\_data: short sequences\<close>

text \<open>
  C2, as amended. \<open>prepare_data\<close> has no error of its own for short sequences. With both
  required columns present and \<open>TEMP\<close> numeric, an empty sequence makes it fail with the
  \<open>ValueError\<close> that the transform library raises, and a sequence of length 1 is
  accepted: the call returns a frame with no rows and an empty \<open>TEMP_FFT\<close> column.
  (Non-finite values are outside this model of exact reals.)
\<close>

theorem prepare_data_short_sequences:
  assumes "wf_frame df" "getitem df ''TEMP'' = Some temp"
    and "numeric_values temp = Some temp_array" "''HOUR_OF_DAY'' \<in> set (columns df)"
  shows "(nrows df = 0 \<longrightarrow>
            prepare_data df = Inl (ValueError ''invalid number of data points (0) specified''))
         \<and> (nrows df = 1 \<longrightarrow>
              (\<exists>out. prepare_data df = Inr out \<and> nrows out = 0
                 \<and> getitem out ''TEMP_FFT'' = Some (FloatCol [])))"
proof -
  have len: "length temp_array = nrows df"
    using assms by (simp add: length_numeric_values getitem_col_len)
  have req: "required_columns \<subseteq> set (columns df)"
    using assms(2,4) by (simp add: required_columns_def getitem_in_columns)
  have zero: "prepare_data df = Inl (ValueError ''invalid number of data points (0) specified'')"
    if "nrows df = 0"
    using that len req assms(2,3) wf_not_duplicated[OF assms(1)]
    by (simp add: prepare_data_def fft_def)
  have one: "\<exists>out. prepare_data df = Inr out \<and> nrows out = 0
               \<and> getitem out ''TEMP_FFT'' = Some (FloatCol [])"
    if n1: "nrows df = 1"
  proof -
    have ne: "temp_array \<noteq> []" using len n1 by auto
    have "prepare_data df = setitem (iloc_from 1 df) ''TEMP_FFT'' (FloatCol [])"
      using prepare_data_numeric[OF req assms(2,3) ne wf_not_duplicated[OF assms(1)]] len n1
      by simp
    moreover have "col_len (FloatCol []) = nrows (iloc_from 1 df)"
      using n1 by (simp add: nrows_iloc_from)
    ultimately have "prepare_data df =
        Inr ((iloc_from 1 df)\<lparr>cols := put_column ''TEMP_FFT'' (FloatCol []) (cols (iloc_from 1 df))\<rparr>)"
      using setitem_Inr by simp
    then show ?thesis
      using n1 by (simp add: nrows_def iloc_from_def getitem_def map_of_put_column)
  qed
  show ?thesis using zero one by blast
qed

theorem prepare_data_short_sequences_witness:
  "wf_frame single_observation \<and> getitem single_observation ''TEMP'' = Some (FloatCol [20])
   \<and> numeric_values (FloatCol [20]) = Some [20]
   \<and> ''HOUR_OF_DAY'' \<in> set (columns single_observation)
   \<and> nrows single_observation = 1
   \<and> (\<exists>out. prepare_data single_observation = Inr out \<and> nrows out = 0
          \<and> getitem out ''TEMP_FFT'' = Some (FloatCol []))"
proof -
  have h: "wf_frame single_observation" "getitem single_observation ''TEMP'' = Some (FloatCol [20])"
    "numeric_values (FloatCol [20]) = Some [20]"
    "''HOUR_OF_DAY'' \<in> set (columns single_observation)"
    by (simp_all add: single_observation_def wf_frame_def columns_def nrows_def getitem_def)
  have n: "nrows single_observation = 1"
    by (simp add: single_observation_def nrows_def)
  show ?thesis
    using h n prepare_data_short_sequences [OF h] by simp
qed

text \<open>
  The claim as stated fails on an input of one row: the call returns, with no rows.
\<close>

theorem prepare_data_single_row_counterexample:
  "prepare_data single_observation =
     Inr \<lparr>index = [],
          cols = [(''TEMP'', FloatCol []), (''HOUR_OF_DAY'', IntCol []), (''TEMP_FFT'', FloatCol [])]\<rparr>"
  by (simp add: prepare_data_def single_observation_def required_columns_def columns_def
      getitem_def fft_def setitem_def iloc_from_def nrows_def is_duplicated_def)

section \<open>prepare\_data: missing required columns\<close>

text \<open>
  C4. For an input that lacks the \<open>TEMP\<close> column or the \<open>HOUR_OF_DAY\<close> column,
  \<open>prepare_data\<close> fails with the \<open>KeyError\<close> for missing required columns (the error the
  specification calls SchemaError), and the error carries exactly the required columns
  that are missing; in particular it names \<open>TEMP\<close> when \<open>TEMP\<close> is absent.
\<close>

theorem prepare_data_missing_columns:
  assumes "''TEMP'' \<notin> set (columns df) \<or> ''HOUR_OF_DAY'' \<notin> set (columns df)"
  shows "\<exists>missing. prepare_data df = Inl (KeyError (MissingRequiredColumns missing))
           \<and> missing = {n \<in> required_columns. n \<notin> set (columns df)}
           \<and> missing \<noteq> {}
           \<and> (''TEMP'' \<notin> set (columns df) \<longrightarrow> ''TEMP'' \<in> missing)
           \<and> (''HOUR_OF_DAY'' \<notin> set (columns df) \<longrightarrow> ''HOUR_OF_DAY'' \<in> missing)"
proof -
  have "\<not> required_columns \<subseteq> set (columns df)"
    using assms by (auto simp: required_columns_def)
  then have "prepare_data df =
      Inl (KeyError (MissingRequiredColumns (required_columns - set (columns df))))"
    by (simp add: prepare_data_def)
  moreover have "required_columns - set (columns df) = {n \<in> required_columns. n \<notin> set (columns df)}"
    by auto
  ultimately show ?thesis
    using assms by (auto simp: required_columns_def)
qed

theorem prepare_data_missing_columns_witness:
  "''TEMP'' \<notin> set (columns \<lparr>index = [0], cols = [(''HOUR_OF_DAY'', IntCol [7])]\<rparr>)
   \<and> prepare_data \<lparr>index = [0], cols = [(''HOUR_OF_DAY'', IntCol [7])]\<rparr> =
        Inl (KeyError (MissingRequiredColumns {''TEMP''}))"
proof -
  let ?df = "\<lparr>index = [0], cols = [(''HOUR_OF_DAY'', IntCol [7])]\<rparr>"
  have h: "''TEMP'' \<notin> set (columns ?df)" by (simp add: columns_def)
  have m: "{n \<in> required_columns. n \<notin> set (columns ?df)} = {''TEMP''}"
    by (auto simp: required_columns_def columns_def)
  show ?thesis
    using h prepare_data_missing_columns [of ?df] m by auto
qed

section \<open>prepare\_data: a non-numeric temperature column\<close>

text \<open>
  C5, as amended. For an input that has both the \<open>TEMP\<close> and the \<open>HOUR_OF_DAY\<close> column and
  whose \<open>TEMP\<close> column is not numeric, \<open>prepare_data\<close> fails with
  \<open>ValueError("'TEMP' column must be numeric.")\<close>, the error the specification calls
  TypeError.
\<close>

theorem prepare_data_non_numeric:
  assumes "getitem df ''TEMP'' = Some temp" "\<not> is_numeric_dtype temp"
    and "''HOUR_OF_DAY'' \<in> set (columns df)"
  shows "prepare_data df = Inl (ValueError temp_must_be_numeric)"
proof -
  have "required_columns \<subseteq> set (columns df)"
    using assms(1,3) by (simp add: required_columns_def getitem_in_columns)
  then show ?thesis
    using assms(1,2) by (simp add: prepare_data_def is_numeric_dtype_def)
qed

theorem prepare_data_non_numeric_witness:
  "getitem \<lparr>index = [0], cols = [(''TEMP'', ObjectCol [''warm'']), (''HOUR_OF_DAY'', IntCol [7])]\<rparr> ''TEMP''
     = Some (ObjectCol [''warm''])
   \<and> \<not> is_numeric_dtype (ObjectCol [''warm''])
   \<and> prepare_data \<lparr>index = [0], cols = [(''TEMP'', ObjectCol [''warm'']), (''HOUR_OF_DAY'', IntCol [7])]\<rparr>
       = Inl (ValueError temp_must_be_numeric)"
proof -
  let ?df = "\<lparr>index = [0], cols = [(''TEMP'', ObjectCol [''warm'']), (''HOUR_OF_DAY'', IntCol [7])]\<rparr>"
  have h: "getitem ?df ''TEMP'' = Some (ObjectCol [''warm''])" "\<not> is_numeric_dtype (ObjectCol [''warm''])"
    "''HOUR_OF_DAY'' \<in> set (columns ?df)"
    by (simp_all add: getitem_def is_numeric_dtype_def columns_def)
  show ?thesis
    using h prepare_data_non_numeric [OF h] by simp
qed

text \<open>
  The claim as stated fails on an input whose \<open>TEMP\<close> column is not numeric and that has
  no \<open>HOUR_OF_DAY\<close> column: the check for required columns comes first.
\<close>

theorem prepare_data_non_numeric_counterexample:
  "prepare_data \<lparr>index = [0], cols = [(''TEMP'', ObjectCol [''warm''])]\<rparr> =
     Inl (KeyError (MissingRequiredColumns {''HOUR_OF_DAY''}))"
proof -
  have "required_columns - set (columns \<lparr>index = [0], cols = [(''TEMP'', ObjectCol [''warm''])]\<rparr>)
          = {''HOUR_OF_DAY''}"
    by (auto simp: required_columns_def columns_def)
  then show ?thesis
    by (simp add: prepare_data_def required_columns_def columns_def)
qed

section \<open>prepare\_data: the caller's DataFrame is left alone\<close>

text \<open>
  C6. \<open>prepare_data\<close> does not mutate its argument: whatever the outcome, every DataFrame
  object that existed before the call, the caller's one among them, holds the same value
  after it, and a returned DataFrame is an object that did not exist before the call. The
  object returned carries the value that \<open>prepare_data\<close> computes on values.
\<close>

theorem prepare_data_store_frame:
  assumes "a < length h"
  shows "case prepare_data_store h a of (r, h') \<Rightarrow>
           take (length h) h' = h
           \<and> (case r of
                 Inl e \<Rightarrow> prepare_data (h ! a) = Inl e
               | Inr b \<Rightarrow> length h \<le> b \<and> b < length h' \<and> prepare_data (h ! a) = Inr (h' ! b))"
  using assms
  by (auto simp: prepare_data_store_def prepare_data_def alloc_def nth_append
      split: option.splits sum.splits)

theorem prepare_data_store_frame_witness:
  "(0::nat) < length [sample_observations]
   \<and> (\<exists>h'. prepare_data_store [sample_observations] 0 = (Inr 3, h')
          \<and> take 1 h' = [sample_observations]
          \<and> prepare_data sample_observations = Inr (h' ! 3))"
proof -
  have h: "(0::nat) < length [sample_observations]" by simp
  have r: "fst (prepare_data_store [sample_observations] 0) = Inr 3"
    by (simp add: prepare_data_store_def alloc_def sample_observations_def required_columns_def
        columns_def getitem_def fft_def setitem_def iloc_from_def nrows_def is_duplicated_def)
  show ?thesis
    using h r prepare_data_store_frame [OF h]
    by (cases "prepare_data_store [sample_observations] 0") auto
qed

section \<open>predict: the result and the retained state\<close>

lemma predict_InrD:
  assumes "predict lib self input = (Inr out, self')"
  shows "\<exists>prepared X0 y X model with_predictions.
           prepare_data input = Inr prepared
         \<and> drop_columns prepared [''TEMP'', ''DATE''] = Inr X0
         \<and> getitem prepared ''TEMP'' = Some y
         \<and> location_as_category X0 = Inr X
         \<and> xgb_fit lib X y = Inr model
         \<and> setitem prepared ''PREDICTED_TEMP''
               (FloatCol (map (xgb_predict lib model X) [0..<nrows X])) = Inr with_predictions
         \<and> select_columns with_predictions output_columns = Inr out
         \<and> self' = self\<lparr>self_xgb_model := Some model, self_X := Some X\<rparr>"
  using assms
  by (auto simp: predict_def split: sum.splits option.splits)

lemma predict_sample_observations:
  "fst (predict (sample_library w srt) self sample_observations) =
     Inr \<lparr>index = [1, 2],
          cols = [(''DATE'', DatetimeCol [3600, 7200]),
                  (''LOCATION'', ObjectCol [''Tokyo'', ''Tokyo'']),
                  (''HOUR_OF_DAY'', IntCol [1, 2]),
                  (''TEMP'', FloatCol [18, 21]),
                  (''PREDICTED_TEMP'', FloatCol [0, 0])]\<rparr>"
  by (simp add: predict_def prepare_data_sample_observations drop_columns_def columns_def
      getitem_def location_as_category_def setitem_def nrows_def sample_library_def
      select_columns_def output_columns_def upt_conv_Cons)

text \<open>
  C9. When \<open>predict\<close> returns a result, the result has exactly the columns \<open>DATE\<close>,
  \<open>LOCATION\<close>, \<open>HOUR_OF_DAY\<close>, \<open>TEMP\<close>, \<open>PREDICTED_TEMP\<close>, its rows are the prepared rows in
  their order (same row labels, the first four columns are those of the prepared frame,
  the last holds the model's prediction for each row), and the instance afterwards
  holds the newly fitted model and the feature matrix \<open>X\<close> it was fitted on, whatever it
  held before. \<open>X\<close> has the prepared rows, the prepared columns except \<open>TEMP\<close> and \<open>DATE\<close>,
  and its \<open>LOCATION\<close> column is categorical.
\<close>

theorem predict_result_and_state:
  assumes "predict lib self input = (Inr out, self')"
  shows "\<exists>prepared X y model.
           prepare_data input = Inr prepared
         \<and> columns out = output_columns
         \<and> index out = index prepared
         \<and> getitem out ''DATE'' = getitem prepared ''DATE''
         \<and> getitem out ''LOCATION'' = getitem prepared ''LOCATION''
         \<and> getitem out ''HOUR_OF_DAY'' = getitem prepared ''HOUR_OF_DAY''
         \<and> getitem out ''TEMP'' = getitem prepared ''TEMP''
         \<and> getitem out ''PREDICTED_TEMP'' =
              Some (FloatCol (map (xgb_predict lib model X) [0..<nrows prepared]))
         \<and> getitem prepared ''TEMP'' = Some y
         \<and> xgb_fit lib X y = Inr model
         \<and> self' = \<lparr>self_xgb_model = Some model, self_X = Some X\<rparr>
         \<and> index X = index prepared
         \<and> columns X = filter (\<lambda>n. n \<noteq> ''TEMP'' \<and> n \<noteq> ''DATE'') (columns prepared)
         \<and> getitem X ''LOCATION'' = map_option astype_category (getitem prepared ''LOCATION'')
         \<and> (\<exists>c. getitem X ''LOCATION'' = Some (CategoryCol c))
         \<and> (\<forall>n. n \<noteq> ''TEMP'' \<and> n \<noteq> ''DATE'' \<and> n \<noteq> ''LOCATION'' \<longrightarrow>
                getitem X n = getitem prepared n)"
proof -
  from predict_InrD[OF assms] obtain prepared X0 y X model with_predictions where
    p: "prepare_data input = Inr prepared"
    and d: "drop_columns prepared [''TEMP'', ''DATE''] = Inr X0"
    and y: "getitem prepared ''TEMP'' = Some y"
    and l: "location_as_category X0 = Inr X"
    and f: "xgb_fit lib X y = Inr model"
    and s: "setitem prepared ''PREDICTED_TEMP''
               (FloatCol (map (xgb_predict lib model X) [0..<nrows X])) = Inr with_predictions"
    and o: "select_columns with_predictions output_columns = Inr out"
    and st: "self' = self\<lparr>self_xgb_model := Some model, self_X := Some X\<rparr>"
    by blast
  note dD = drop_columns_InrD[OF d] and lD = location_as_category_InrD[OF l]
    and sD = setitem_InrD[OF s] and oD = select_columns_InrD[OF o]
  have ix: "index X = index prepared" using dD(2) lD(1) by simp
  then have nr: "nrows X = nrows prepared" by (simp add: nrows_def)
  have out_get: "getitem out n = getitem with_predictions n" if "n \<in> set output_columns" for n
    using oD(4)[OF that] .
  have wp_get: "getitem with_predictions n = getitem prepared n" if "n \<noteq> ''PREDICTED_TEMP''" for n
    using sD(3)[of n] that by simp
  have c1: "columns out = output_columns" by (rule oD(3))
  have c2: "index out = index prepared" using oD(2) sD(1) by simp
  have c3: "getitem out ''DATE'' = getitem prepared ''DATE''"
    using out_get[of "''DATE''"] wp_get[of "''DATE''"] by (simp add: output_columns_def)
  have c4: "getitem out ''LOCATION'' = getitem prepared ''LOCATION''"
    using out_get[of "''LOCATION''"] wp_get[of "''LOCATION''"] by (simp add: output_columns_def)
  have c5: "getitem out ''HOUR_OF_DAY'' = getitem prepared ''HOUR_OF_DAY''"
    using out_get[of "''HOUR_OF_DAY''"] wp_get[of "''HOUR_OF_DAY''"] by (simp add: output_columns_def)
  have c6: "getitem out ''TEMP'' = getitem prepared ''TEMP''"
    using out_get[of "''TEMP''"] wp_get[of "''TEMP''"] by (simp add: output_columns_def)
  have c7: "getitem out ''PREDICTED_TEMP'' =
              Some (FloatCol (map (xgb_predict lib model X) [0..<nrows prepared]))"
    using out_get[of "''PREDICTED_TEMP''"] sD(3)[of "''PREDICTED_TEMP''"] nr
    by (simp add: output_columns_def)
  have c8: "self' = \<lparr>self_xgb_model = Some model, self_X = Some X\<rparr>"
    using st by simp
  have c9: "columns X = filter (\<lambda>n. n \<noteq> ''TEMP'' \<and> n \<noteq> ''DATE'') (columns prepared)"
    using lD(2) dD(3) by simp
  have loc_in: "''LOCATION'' \<in> set (columns with_predictions)"
    using oD(1) by (auto simp: output_columns_def)
  then obtain loc where loc: "getitem prepared ''LOCATION'' = Some loc"
    using wp_get[of "''LOCATION''"] in_columns_iff[of "''LOCATION''" with_predictions] by auto
  have c10: "getitem X ''LOCATION'' = map_option astype_category (getitem prepared ''LOCATION'')"
    using lD(3)[of "''LOCATION''"] dD(4)[of "''LOCATION''"] by simp
  have c11: "\<exists>c. getitem X ''LOCATION'' = Some (CategoryCol c)"
    using c10 loc astype_category_is_category[of loc] by simp
  have c12: "\<forall>n. n \<noteq> ''TEMP'' \<and> n \<noteq> ''DATE'' \<and> n \<noteq> ''LOCATION'' \<longrightarrow>
                getitem X n = getitem prepared n"
    using lD(3) dD(4) by simp
  show ?thesis
    using p c1 c2 c3 c4 c5 c6 c7 y f c8 ix c9 c10 c11 c12 by blast
qed

theorem predict_result_and_state_witness:
  "fst (predict (sample_library (\<lambda>j. 1) stable_order) WeatherPredictor sample_observations) =
     Inr \<lparr>index = [1, 2],
          cols = [(''DATE'', DatetimeCol [3600, 7200]),
                  (''LOCATION'', ObjectCol [''Tokyo'', ''Tokyo'']),
                  (''HOUR_OF_DAY'', IntCol [1, 2]),
                  (''TEMP'', FloatCol [18, 21]),
                  (''PREDICTED_TEMP'', FloatCol [0, 0])]\<rparr>
   \<and> (\<exists>X model.
         snd (predict (sample_library (\<lambda>j. 1) stable_order) WeatherPredictor sample_observations) =
           \<lparr>self_xgb_model = Some model, self_X = Some X\<rparr>
         \<and> index X = [1, 2]
         \<and> columns X = [''LOCATION'', ''HOUR_OF_DAY'', ''RANDOM_NOISE'', ''TEMP_FFT'']
         \<and> getitem X ''LOCATION'' = Some (CategoryCol (ObjectCol [''Tokyo'', ''Tokyo''])))"
proof -
  define L where "L = sample_library (\<lambda>j. 1) stable_order"
  define out where "out = \<lparr>index = [1, 2],
          cols = [(''DATE'', DatetimeCol [3600, 7200]),
                  (''LOCATION'', ObjectCol [''Tokyo'', ''Tokyo'']),
                  (''HOUR_OF_DAY'', IntCol [1, 2]),
                  (''TEMP'', FloatCol [18, 21]),
                  (''PREDICTED_TEMP'', FloatCol [0, 0])]\<rparr>"
  define self' where "self' = snd (predict L WeatherPredictor sample_observations)"
  have f: "fst (predict L WeatherPredictor sample_observations) = Inr out"
    unfolding L_def out_def by (rule predict_sample_observations)
  have h: "predict L WeatherPredictor sample_observations = (Inr out, self')"
    by (rule prod_eqI) (simp_all add: f self'_def)
  have "\<exists>X model. self' = \<lparr>self_xgb_model = Some model, self_X = Some X\<rparr>
         \<and> index X = [1, 2]
         \<and> columns X = [''LOCATION'', ''HOUR_OF_DAY'', ''RANDOM_NOISE'', ''TEMP_FFT'']
         \<and> getitem X ''LOCATION'' = Some (CategoryCol (ObjectCol [''Tokyo'', ''Tokyo'']))"
    using predict_result_and_state [OF h]
  proof (elim exE conjE)
    fix prepared X y model
    assume p: "prepare_data sample_observations = Inr prepared"
      and st: "self' = \<lparr>self_xgb_model = Some model, self_X = Some X\<rparr>"
      and ix: "index X = index prepared"
      and cs: "columns X = filter (\<lambda>n. n \<noteq> ''TEMP'' \<and> n \<noteq> ''DATE'') (columns prepared)"
      and lc: "getitem X ''LOCATION'' = map_option astype_category (getitem prepared ''LOCATION'')"
    have 1: "index X = [1, 2]"
      using p unfolding ix by (auto simp: prepare_data_sample_observations)
    have 2: "columns X = [''LOCATION'', ''HOUR_OF_DAY'', ''RANDOM_NOISE'', ''TEMP_FFT'']"
      using p unfolding cs by (auto simp: prepare_data_sample_observations columns_def)
    have 3: "getitem X ''LOCATION'' = Some (CategoryCol (ObjectCol [''Tokyo'', ''Tokyo'']))"
      using p unfolding lc by (auto simp: prepare_data_sample_observations getitem_def)
    show ?thesis using st 1 2 3 by blast
  qed
  then show ?thesis
    using f unfolding L_def out_def self'_def by simp
qed

section \<open>predict: DATE and LOCATION are needed\<close>

lemma prepare_data_sample_with_notes:
  "prepare_data sample_with_notes =
     Inr \<lparr>index = [1, 2],
          cols = [(''DATE'', DatetimeCol [3600, 7200]),
                  (''TEMP'', FloatCol [18, 21]),
                  (''HOUR_OF_DAY'', IntCol [1, 2]),
                  (''NOTES'', ObjectCol [''rain'', ''fog'']),
                  (''TEMP_FFT'', FloatCol [cmod (dft_bin [15, 18, 21] 1), cmod (dft_bin [15, 18, 21] 2)])]\<rparr>"
  by (simp add: prepare_data_def sample_with_notes_def required_columns_def columns_def
      getitem_def fft_def setitem_def iloc_from_def nrows_def upt_conv_Cons
      numeral_2_eq_2[symmetric] is_duplicated_def)

text \<open>
  C10, as amended. On a well-formed input that \<open>prepare_data\<close> accepts, \<open>predict\<close> fails
  with a \<open>KeyError\<close> when the \<open>DATE\<close> column is missing: it is raised by
  \<open>drop(columns=['TEMP', 'DATE'])\<close>, before anything is fitted, and the instance is left as
  it was. When \<open>DATE\<close> is present and the \<open>LOCATION\<close> column is missing, \<open>predict\<close> fails as
  well: with the error of the fit when fitting the model raises one, and otherwise with
  the \<open>KeyError\<close> raised by the selection of the output columns.
\<close>

theorem predict_needs_date_and_location:
  assumes "wf_frame input" "prepare_data input = Inr prepared"
  shows "(''DATE'' \<notin> set (columns input) \<longrightarrow>
            predict lib self input = (Inl (KeyError (NotFoundInAxis [''DATE''])), self))
         \<and> (''DATE'' \<in> set (columns input) \<and> ''LOCATION'' \<notin> set (columns input) \<longrightarrow>
              (\<exists>X y. drop_columns prepared [''TEMP'', ''DATE''] = Inr X
                 \<and> getitem prepared ''TEMP'' = Some y
                 \<and> (case xgb_fit lib X y of
                       Inl e \<Rightarrow> predict lib self input = (Inl e, self)
                     | Inr model \<Rightarrow>
                         fst (predict lib self input) = Inl (KeyError (NotInIndex [''LOCATION''])))))"
proof -
  note pD = prepare_data_InrD[OF assms(2)]
  have temp_in: "''TEMP'' \<in> set (columns prepared)"
    using pD(1,3) by (auto simp: required_columns_def)
  have hour_in: "''HOUR_OF_DAY'' \<in> set (columns prepared)"
    using pD(1,3) by (auto simp: required_columns_def)
  have date_iff: "''DATE'' \<in> set (columns prepared) \<longleftrightarrow> ''DATE'' \<in> set (columns input)"
    using pD(3) by auto
  have loc_iff: "''LOCATION'' \<in> set (columns prepared) \<longleftrightarrow> ''LOCATION'' \<in> set (columns input)"
    using pD(3) by auto
  have a: "predict lib self input = (Inl (KeyError (NotFoundInAxis [''DATE''])), self)"
    if "''DATE'' \<notin> set (columns input)"
    using that assms(2) temp_in date_iff by (simp add: predict_def drop_columns_def)
  have b: "\<exists>X y. drop_columns prepared [''TEMP'', ''DATE''] = Inr X
             \<and> getitem prepared ''TEMP'' = Some y
             \<and> (case xgb_fit lib X y of
                   Inl e \<Rightarrow> predict lib self input = (Inl e, self)
                 | Inr model \<Rightarrow>
                     fst (predict lib self input) = Inl (KeyError (NotInIndex [''LOCATION''])))"
    if nl: "''LOCATION'' \<notin> set (columns input)" and dt: "''DATE'' \<in> set (columns input)"
  proof -
    let ?X = "prepared\<lparr>cols := filter (\<lambda>(n, c). n \<notin> set [''TEMP'', ''DATE'']) (cols prepared)\<rparr>"
    have d: "drop_columns prepared [''TEMP'', ''DATE''] = Inr ?X"
      using temp_in date_iff dt by (simp add: drop_columns_def)
    obtain y where y: "getitem prepared ''TEMP'' = Some y"
      using temp_in in_columns_iff by blast
    note dD = drop_columns_InrD[OF d]
    have "''LOCATION'' \<notin> set (columns ?X)" using dD(3) loc_iff nl by simp
    then have l: "location_as_category ?X = Inr ?X" by (simp add: location_as_category_def)
    have fit_fails: "predict lib self input = (Inl e, self)" if "xgb_fit lib ?X y = Inl e" for e
      using assms(2) d y l that by (simp add: predict_def)
    have fit_succeeds: "fst (predict lib self input) = Inl (KeyError (NotInIndex [''LOCATION'']))"
      if f: "xgb_fit lib ?X y = Inr model" for model
    proof -
      let ?pred = "FloatCol (map (xgb_predict lib model ?X) [0..<nrows ?X])"
      let ?wp = "prepared\<lparr>cols := put_column ''PREDICTED_TEMP'' ?pred (cols prepared)\<rparr>"
      have "col_len ?pred = nrows prepared" by (simp add: nrows_def)
      then have s: "setitem prepared ''PREDICTED_TEMP'' ?pred = Inr ?wp" by (rule setitem_Inr)
      note sD = setitem_InrD[OF s]
      have cw: "set (columns ?wp) = insert ''PREDICTED_TEMP'' (set (columns prepared))"
        using sD(2) by auto
      have "filter (\<lambda>n. n \<notin> set (columns ?wp)) output_columns = [''LOCATION'']"
        unfolding cw using temp_in hour_in date_iff dt loc_iff nl by (simp add: output_columns_def)
      then have "select_columns ?wp output_columns = Inl (KeyError (NotInIndex [''LOCATION'']))"
        by (simp add: select_columns_def)
      then show ?thesis
        using assms(2) d y l f s by (simp add: predict_def)
    qed
    have "case xgb_fit lib ?X y of
            Inl e \<Rightarrow> predict lib self input = (Inl e, self)
          | Inr model \<Rightarrow> fst (predict lib self input) = Inl (KeyError (NotInIndex [''LOCATION'']))"
      using fit_fails fit_succeeds by (cases "xgb_fit lib ?X y") simp_all
    then show ?thesis using d y by blast
  qed
  show ?thesis using a b by blast
qed

theorem predict_needs_date_and_location_witness:
  "wf_frame sample_without_location
   \<and> (\<exists>prepared. prepare_data sample_without_location = Inr prepared)
   \<and> ''DATE'' \<in> set (columns sample_without_location)
   \<and> ''LOCATION'' \<notin> set (columns sample_without_location)
   \<and> fst (predict (sample_library (\<lambda>j. 1) stable_order) WeatherPredictor sample_without_location) =
        Inl (KeyError (NotInIndex [''LOCATION'']))"
proof -
  define L where "L = sample_library (\<lambda>j. 1) stable_order"
  have w: "wf_frame sample_without_location"
    by (simp add: sample_without_location_def wf_frame_def columns_def nrows_def)
  obtain prepared where p: "prepare_data sample_without_location = Inr prepared"
    using prepare_data_sample_without_location by blast
  have c: "''DATE'' \<in> set (columns sample_without_location)"
    "''LOCATION'' \<notin> set (columns sample_without_location)"
    by (simp_all add: sample_without_location_def columns_def)
  have fit: "\<exists>model. xgb_fit L X y = Inr model"
    if "drop_columns prepared [''TEMP'', ''DATE''] = Inr X" for X y
    using that p unfolding L_def
    by (auto simp: prepare_data_sample_without_location drop_columns_def columns_def
        sample_library_def)
  have "\<exists>X y. drop_columns prepared [''TEMP'', ''DATE''] = Inr X
          \<and> (case xgb_fit L X y of
                Inl e \<Rightarrow> predict L WeatherPredictor sample_without_location = (Inl e, WeatherPredictor)
              | Inr model \<Rightarrow>
                  fst (predict L WeatherPredictor sample_without_location) =
                    Inl (KeyError (NotInIndex [''LOCATION''])))"
    using predict_needs_date_and_location [OF w p, of L WeatherPredictor] c by blast
  then have "fst (predict L WeatherPredictor sample_without_location) =
      Inl (KeyError (NotInIndex [''LOCATION'']))"
    using fit by (auto split: sum.splits)
  then show ?thesis
    using w p c unfolding L_def by blast
qed

text \<open>
  The claim as stated, a key-lookup error on every input without \<open>LOCATION\<close>, fails on
  an input that carries a column of strings besides the required ones: xgboost refuses
  the column, and \<open>predict\<close> fails with the error of the fit before it reaches the
  selection of the output columns.
\<close>

theorem predict_fit_error_counterexample:
  "wf_frame sample_with_notes
   \<and> \<not> isl (prepare_data sample_with_notes)
   \<and> ''DATE'' \<in> set (columns sample_with_notes)
   \<and> ''LOCATION'' \<notin> set (columns sample_with_notes)
   \<and> predict (sample_library (\<lambda>j. 1) stable_order) WeatherPredictor sample_with_notes =
        (Inl (ValueError xgb_invalid_dtypes), WeatherPredictor)"
proof -
  have "wf_frame sample_with_notes"
    by (simp add: sample_with_notes_def wf_frame_def columns_def nrows_def)
  moreover have "''DATE'' \<in> set (columns sample_with_notes)"
    "''LOCATION'' \<notin> set (columns sample_with_notes)"
    by (simp_all add: sample_with_notes_def columns_def)
  moreover have "predict (sample_library (\<lambda>j. 1) stable_order) WeatherPredictor sample_with_notes =
        (Inl (ValueError xgb_invalid_dtypes), WeatherPredictor)"
    by (simp add: predict_def prepare_data_sample_with_notes drop_columns_def columns_def
        getitem_def location_as_category_def sample_library_def)
  ultimately show ?thesis
    by (simp add: prepare_data_sample_with_notes)
qed

section \<open>calculate\_global\_shap: the trained state\<close>

lemma not_trained_iff:
  "calculate_global_shap lib self = Inl (ValueError model_not_trained) \<longleftrightarrow> self_xgb_model self = None"
  by (simp add: calculate_global_shap_def split: option.splits)

lemma calculate_global_shap_new_instance:
  "calculate_global_shap lib WeatherPredictor = Inl (ValueError model_not_trained)"
  by (simp add: not_trained_iff WeatherPredictor_def)

lemma predict_keeps_model:
  "self_xgb_model self \<noteq> None \<Longrightarrow> self_xgb_model (snd (predict lib self input)) \<noteq> None"
  by (auto simp: predict_def split: sum.splits option.splits)

lemma predict_success_sets_model:
  "\<not> isl (fst (predict lib self input)) \<Longrightarrow> self_xgb_model (snd (predict lib self input)) \<noteq> None"
  by (auto simp: predict_def split: sum.splits option.splits)

lemma predict_all_keeps_model:
  "self_xgb_model self \<noteq> None \<Longrightarrow> self_xgb_model (predict_all lib self inputs) \<noteq> None"
proof (induction inputs arbitrary: self)
  case Nil
  then show ?case by simp
next
  case (Cons input rest)
  have "self_xgb_model (snd (predict lib self input)) \<noteq> None"
    using Cons.prems by (rule predict_keeps_model)
  then show ?case using Cons.IH by simp
qed

lemma model_after_success:
  "some_predict_succeeded lib self inputs \<Longrightarrow> self_xgb_model (predict_all lib self inputs) \<noteq> None"
proof (induction inputs arbitrary: self)
  case Nil
  then show ?case by simp
next
  case (Cons input rest)
  show ?case
  proof (cases "isl (fst (predict lib self input))")
    case True
    then show ?thesis using Cons by simp
  next
    case False
    then show ?thesis
      using predict_success_sets_model predict_all_keeps_model by fastforce
  qed
qed

lemma calculate_global_shap_after_success:
  "some_predict_succeeded lib self inputs \<Longrightarrow>
     calculate_global_shap lib (predict_all lib self inputs) \<noteq> Inl (ValueError model_not_trained)"
  by (simp add: not_trained_iff model_after_success)

lemma predict_sample_without_location:
  "predict (sample_library w srt) self sample_without_location =
     (Inl (KeyError (NotInIndex [''LOCATION''])),
      self\<lparr>self_xgb_model := Some (),
           self_X := Some \<lparr>index = [1, 2],
                            cols = [(''HOUR_OF_DAY'', IntCol [1, 2]),
                                    (''TEMP_FFT'', FloatCol [cmod (dft_bin [15, 18, 21] 1),
                                                           cmod (dft_bin [15, 18, 21] 2)])]\<rparr>\<rparr>)"
  by (simp add: predict_def prepare_data_sample_without_location drop_columns_def columns_def
      getitem_def location_as_category_def setitem_def nrows_def sample_library_def
      select_columns_def output_columns_def upt_conv_Cons)

text \<open>
  C3. On a new instance \<open>calculate_global_shap\<close> raises
  \<open>ValueError("Model not trained. Run 'predict' first.")\<close> (the error the specification
  calls NotTrainedError), and after a \<open>predict\<close> call that returned a result it never
  raises it: the two lemmas above. The claim asks for the error as long as no \<open>predict\<close>
  call has succeeded. The code does not do that: \<open>predict\<close> on an input without a
  \<open>LOCATION\<close> column fails in the selection of the output columns, after it has stored
  the model and the feature matrix, and \<open>calculate_global_shap\<close> then returns a report.
\<close>

theorem calculate_global_shap_after_failed_predict:
  "fst (predict (sample_library (\<lambda>j. 1) stable_order) WeatherPredictor sample_without_location) =
     Inl (KeyError (NotInIndex [''LOCATION'']))
   \<and> \<not> some_predict_succeeded (sample_library (\<lambda>j. 1) stable_order) WeatherPredictor
         [sample_without_location]
   \<and> calculate_global_shap (sample_library (\<lambda>j. 1) stable_order)
        (predict_all (sample_library (\<lambda>j. 1) stable_order) WeatherPredictor [sample_without_location])
       \<noteq> Inl (ValueError model_not_trained)
   \<and> \<not> isl (calculate_global_shap (sample_library (\<lambda>j. 1) stable_order)
        (predict_all (sample_library (\<lambda>j. 1) stable_order) WeatherPredictor [sample_without_location]))"
  by (simp add: predict_sample_without_location calculate_global_shap_def nrows_def)

section \<open>calculate\_global\_shap: the report\<close>

lemma sorted_wrt_stable_order: "sorted_wrt (\<lambda>i j. xs ! j \<le> xs ! i) (stable_order xs)"
proof -
  have "sorted (map (\<lambda>i. - xs ! i) (stable_order xs))"
    unfolding stable_order_def by (rule sorted_sort_key)
  then show ?thesis by (simp add: sorted_map)
qed

lemma sorts_descending_stable_order: "sorts_descending stable_order"
  by (simp add: sorts_descending_def sorted_wrt_stable_order) (simp add: stable_order_def)

lemma length_global_shap: "length (global_shap lib model X) = length (columns X)"
  by (simp add: global_shap_def)

lemma global_shap_nth:
  "j < length (columns X) \<Longrightarrow>
     global_shap lib model X ! j = (\<Sum>i = 0..<nrows X. \<bar>shap_values lib model X i j\<bar>) / real (nrows X)"
  by (simp add: global_shap_def mean_def interv_sum_list_conv_sum_set_nat)

lemma order_in_range:
  assumes "mset order = mset [0..<n]" "i \<in> set order"
  shows "i < n"
proof -
  have "set order = set [0..<n]" using assms(1) by (metis set_mset_mset)
  then show ?thesis using assms(2) by simp
qed

lemma iloc_take_feature_importance:
  assumes "mset order = mset [0..<length features]"
  shows "iloc_take order (feature_importance features scores) =
           \<lparr>index = map int order,
            cols = [(''FEATURE'', ObjectCol (map ((!) features) order)),
                    (''GLOBAL_SHAP'', FloatCol (map ((!) scores) order))]\<rparr>"
proof -
  have "map ((!) (map int [0..<length features])) order = map int order"
    using order_in_range[OF assms] by (simp add: map_eq_conv)
  then show ?thesis by (simp add: iloc_take_def feature_importance_def)
qed

lemma calculate_global_shap_trained:
  assumes "self_xgb_model self = Some model" "self_X self = Some X" "0 < nrows X"
  shows "calculate_global_shap lib self =
           Inr (iloc_take (sort_order lib (global_shap lib model X))
                  (feature_importance (columns X) (global_shap lib model X)))"
  using assms by (simp add: calculate_global_shap_def)

lemma calculate_global_shap_no_rows:
  assumes "self_xgb_model self = Some model" "self_X self = Some X" "nrows X = 0"
  shows "calculate_global_shap lib self = Inl IndexError"
  using assms by (simp add: calculate_global_shap_def)

lemma global_shap_two_rows:
  assumes "nrows X = 2"
  shows "global_shap (sample_library w srt) model X = map (\<lambda>j. \<bar>w j\<bar>) [0..<length (columns X)]"
  using assms by (simp add: global_shap_def mean_def sample_library_def upt_conv_Cons)

lemma calculate_global_shap_sample_trained:
  "calculate_global_shap (sample_library w srt) sample_trained =
     Inr (iloc_take (srt [\<bar>w 0\<bar>, \<bar>w 1\<bar>])
            (feature_importance [''HOUR_OF_DAY'', ''TEMP_FFT''] [\<bar>w 0\<bar>, \<bar>w 1\<bar>]))"
proof -
  define X where "X = \<lparr>index = [1, 2], cols = [(''HOUR_OF_DAY'', IntCol [1, 2]), (''TEMP_FFT'', FloatCol [5, 5])]\<rparr>"
  have n: "nrows X = 2" and c: "columns X = [''HOUR_OF_DAY'', ''TEMP_FFT'']"
    by (simp_all add: X_def nrows_def columns_def)
  have g: "global_shap (sample_library w srt) () X = [\<bar>w 0\<bar>, \<bar>w 1\<bar>]"
    using global_shap_two_rows[OF n, of w srt "()"] by (simp add: c upt_conv_Cons)
  have "calculate_global_shap (sample_library w srt) sample_trained =
      Inr (iloc_take (sort_order (sample_library w srt) (global_shap (sample_library w srt) () X))
             (feature_importance (columns X) (global_shap (sample_library w srt) () X)))"
    by (rule calculate_global_shap_trained) (simp_all add: sample_trained_def X_def nrows_def)
  moreover have "sort_order (sample_library w srt) = srt"
    by (simp add: sample_library_def)
  ultimately show ?thesis by (simp add: g c)
qed

lemma calculate_global_shap_sample_trained_four:
  "calculate_global_shap (sample_library w srt) sample_trained_four =
     Inr (iloc_take (srt [\<bar>w 0\<bar>, \<bar>w 1\<bar>, \<bar>w 2\<bar>, \<bar>w 3\<bar>])
            (feature_importance [''LOCATION'', ''HOUR_OF_DAY'', ''RANDOM_NOISE'', ''TEMP_FFT'']
               [\<bar>w 0\<bar>, \<bar>w 1\<bar>, \<bar>w 2\<bar>, \<bar>w 3\<bar>]))"
proof -
  define X where "X = \<lparr>index = [1, 2],
                     cols = [(''LOCATION'', CategoryCol (ObjectCol [''Tokyo'', ''Tokyo''])),
                             (''HOUR_OF_DAY'', IntCol [1, 2]),
                             (''RANDOM_NOISE'', FloatCol [7, 93]),
                             (''TEMP_FFT'', FloatCol [5, 5])]\<rparr>"
  have n: "nrows X = 2"
    and c: "columns X = [''LOCATION'', ''HOUR_OF_DAY'', ''RANDOM_NOISE'', ''TEMP_FFT'']"
    by (simp_all add: X_def nrows_def columns_def)
  have g: "global_shap (sample_library w srt) () X = [\<bar>w 0\<bar>, \<bar>w 1\<bar>, \<bar>w 2\<bar>, \<bar>w 3\<bar>]"
    using global_shap_two_rows[OF n, of w srt "()"]
    by (simp add: c upt_conv_Cons numeral_2_eq_2[symmetric] numeral_3_eq_3[symmetric])
  have "calculate_global_shap (sample_library w srt) sample_trained_four =
      Inr (iloc_take (sort_order (sample_library w srt) (global_shap (sample_library w srt) () X))
             (feature_importance (columns X) (global_shap (sample_library w srt) () X)))"
    by (rule calculate_global_shap_trained) (simp_all add: sample_trained_four_def X_def nrows_def)
  moreover have "sort_order (sample_library w srt) = srt"
    by (simp add: sample_library_def)
  ultimately show ?thesis by (simp add: g c)
qed

text \<open>
  The sorting network on the scores \<open>1, 1, 2, 2\<close>, and on two equal scores, where it
  keeps the original order.
\<close>

lemma nargsort_descending_four: "nargsort_descending [1, 1, 2, 2] = [3, 2, 1, 0]"
  by (simp add: nargsort_descending_def argsort_8_64bit_def sort_zmm_64bit_def stage_def
      cmp_merge_def swap_pairs_def network_64bit_1_def network_64bit_2_def network_64bit_3_def
      mask_AA_def mask_CC_def mask_F0_def upt_conv_Cons numeral_2_eq_2[symmetric]
      numeral_3_eq_3[symmetric] Let_def)

lemma nargsort_descending_two: "nargsort_descending [1, 1] = [0, 1]"
  by (simp add: nargsort_descending_def argsort_8_64bit_def sort_zmm_64bit_def stage_def
      cmp_merge_def swap_pairs_def network_64bit_1_def network_64bit_2_def network_64bit_3_def
      mask_AA_def mask_CC_def mask_F0_def upt_conv_Cons Let_def)

text \<open>
  C7, as amended. For a trained instance whose feature matrix has at least one row (on a
  feature matrix without rows the call fails with the \<open>IndexError\<close> from shap), and a
  sorting routine that arranges scores in non-increasing order, \<open>calculate_global_shap\<close>
  returns one row per column of the feature matrix (the rows are a rearrangement of the
  columns), each with the mean over the rows of the absolute attribution values of its
  column; every score is \<open>\<ge> 0\<close> and the scores are non-increasing. Nothing is said about
  the order of rows with equal scores: the code sorts with the default \<open>quicksort\<close>.
\<close>

theorem calculate_global_shap_report:
  assumes "sorts_descending (sort_order lib)"
    and "self_xgb_model self = Some model" "self_X self = Some X" "0 < nrows X"
  shows "\<exists>order features scores.
           calculate_global_shap lib self =
             Inr \<lparr>index = map int order,
                  cols = [(''FEATURE'', ObjectCol features), (''GLOBAL_SHAP'', FloatCol scores)]\<rparr>
         \<and> mset order = mset [0..<length (columns X)]
         \<and> features = map ((!) (columns X)) order
         \<and> scores = map (\<lambda>j. (\<Sum>i = 0..<nrows X. \<bar>shap_values lib model X i j\<bar>) / real (nrows X)) order
         \<and> list_all (\<lambda>s. 0 \<le> s) scores
         \<and> sorted_wrt (\<lambda>a b. b \<le> a) scores"
proof -
  let ?g = "global_shap lib model X"
  let ?order = "sort_order lib ?g"
  let ?score = "\<lambda>j. (\<Sum>i = 0..<nrows X. \<bar>shap_values lib model X i j\<bar>) / real (nrows X)"
  have perm: "mset ?order = mset [0..<length (columns X)]"
    using assms(1) by (simp add: sorts_descending_def length_global_shap)
  have srt: "sorted_wrt (\<lambda>i j. ?g ! j \<le> ?g ! i) ?order"
    using assms(1) by (simp add: sorts_descending_def)
  have rng: "j < length (columns X)" if "j \<in> set ?order" for j
    using order_in_range[OF perm that] .
  have sc: "map ((!) ?g) ?order = map ?score ?order"
    using rng by (simp add: global_shap_nth)
  have 1: "calculate_global_shap lib self =
             Inr \<lparr>index = map int ?order,
                  cols = [(''FEATURE'', ObjectCol (map ((!) (columns X)) ?order)),
                          (''GLOBAL_SHAP'', FloatCol (map ?score ?order))]\<rparr>"
    using calculate_global_shap_trained[OF assms(2,3,4), of lib]
      iloc_take_feature_importance[OF perm, of ?g] sc
    by simp
  have 2: "list_all (\<lambda>s. 0 \<le> s) (map ?score ?order)"
    by (simp add: list_all_iff sum_nonneg)
  have "sorted_wrt (\<lambda>a b. b \<le> a) (map ((!) ?g) ?order)"
    using srt by (simp add: sorted_wrt_map)
  then have 3: "sorted_wrt (\<lambda>a b. b \<le> a) (map ?score ?order)"
    using sc by simp
  show ?thesis using 1 perm 2 3 by blast
qed

theorem calculate_global_shap_report_witness:
  "sorts_descending (sort_order (sample_library (\<lambda>j. real j + 1) stable_order))
   \<and> self_xgb_model sample_trained = Some ()
   \<and> self_X sample_trained =
        Some \<lparr>index = [1, 2], cols = [(''HOUR_OF_DAY'', IntCol [1, 2]), (''TEMP_FFT'', FloatCol [5, 5])]\<rparr>
   \<and> 0 < nrows \<lparr>index = [1, 2], cols = [(''HOUR_OF_DAY'', IntCol [1, 2]), (''TEMP_FFT'', FloatCol [5, 5])]\<rparr>
   \<and> calculate_global_shap (sample_library (\<lambda>j. real j + 1) stable_order) sample_trained =
        Inr \<lparr>index = [1, 0],
             cols = [(''FEATURE'', ObjectCol [''TEMP_FFT'', ''HOUR_OF_DAY'']),
                     (''GLOBAL_SHAP'', FloatCol [2, 1])]\<rparr>
   \<and> (\<exists>order features scores.
         calculate_global_shap (sample_library (\<lambda>j. real j + 1) stable_order) sample_trained =
           Inr \<lparr>index = map int order,
                cols = [(''FEATURE'', ObjectCol features), (''GLOBAL_SHAP'', FloatCol scores)]\<rparr>
         \<and> mset order = mset [0..<2]
         \<and> list_all (\<lambda>s. 0 \<le> s) scores
         \<and> sorted_wrt (\<lambda>a b. b \<le> a) scores)"
proof -
  define L where "L = sample_library (\<lambda>j. real j + 1) stable_order"
  define X where "X = \<lparr>index = [1, 2], cols = [(''HOUR_OF_DAY'', IntCol [1, 2]), (''TEMP_FFT'', FloatCol [5, 5])]\<rparr>"
  have h: "sorts_descending (sort_order L)" "self_xgb_model sample_trained = Some ()"
    "self_X sample_trained = Some X" "0 < nrows X"
    by (simp_all add: L_def X_def sample_library_def sorts_descending_stable_order
        sample_trained_def nrows_def)
  have c: "calculate_global_shap L sample_trained =
        Inr \<lparr>index = [1, 0],
             cols = [(''FEATURE'', ObjectCol [''TEMP_FFT'', ''HOUR_OF_DAY'']),
                     (''GLOBAL_SHAP'', FloatCol [2, 1])]\<rparr>"
    unfolding L_def
    by (simp add: calculate_global_shap_sample_trained stable_order_def iloc_take_def
        feature_importance_def upt_conv_Cons)
  have l: "length (columns X) = 2" by (simp add: X_def columns_def)
  have "\<exists>order features scores.
         calculate_global_shap L sample_trained =
           Inr \<lparr>index = map int order,
                cols = [(''FEATURE'', ObjectCol features), (''GLOBAL_SHAP'', FloatCol scores)]\<rparr>
         \<and> mset order = mset [0..<2]
         \<and> list_all (\<lambda>s. 0 \<le> s) scores
         \<and> sorted_wrt (\<lambda>a b. b \<le> a) scores"
    using calculate_global_shap_report [OF h] unfolding l by blast
  then show ?thesis
    using h c unfolding L_def X_def by simp
qed

text \<open>
  The claim as stated, with ties in the original column order, fails on a feature matrix
  of four columns with the scores \<open>1, 1, 2, 2\<close> when sorted as on an x86-64 CPU with
  AVX-512: within each pair of equal scores the report lists the later column first.
\<close>

theorem calculate_global_shap_ties_counterexample:
  "columns (the (self_X sample_trained_four)) =
     [''LOCATION'', ''HOUR_OF_DAY'', ''RANDOM_NOISE'', ''TEMP_FFT'']
   \<and> calculate_global_shap (sample_library (\<lambda>j. if j < 2 then 1 else 2) nargsort_descending)
        sample_trained_four =
        Inr \<lparr>index = [3, 2, 1, 0],
             cols = [(''FEATURE'', ObjectCol [''TEMP_FFT'', ''RANDOM_NOISE'', ''HOUR_OF_DAY'', ''LOCATION'']),
                     (''GLOBAL_SHAP'', FloatCol [2, 2, 1, 1])]\<rparr>"
  by (simp add: calculate_global_shap_sample_trained_four nargsort_descending_four
      iloc_take_def feature_importance_def upt_conv_Cons)
    (simp add: sample_trained_four_def columns_def)

end
